theory Spec2Isabelle
  imports Complex_Main "HOL-Library.Sublist"
begin

section \<open>FinTrack: the expense tracker of \<^verbatim>\<open>app.py\<close>\<close>

text \<open>
  The program keeps four CSV files (users, expenses, categories, budgets) and rewrites a
  whole file on every change. A file is modelled as the list of its rows, in file order;
  \<^verbatim>\<open>pd.concat([table, one_row])\<close> followed by \<^verbatim>\<open>to_csv\<close> is an append at the end,
  a boolean-mask selection \<^verbatim>\<open>table[mask]\<close> is \<open>filter\<close>.

  Scope of the ledger model. Rows are typed records, and a cell that is written is read
  back as the same value. \<^verbatim>\<open>pd.read_csv\<close> itself infers the type of every column again on
  each read: a column whose cells all look like numbers comes back as numbers, and cells
  such as \<^verbatim>\<open>N/A\<close>, \<^verbatim>\<open>NA\<close> or \<^verbatim>\<open>null\<close> come back as NaN, so that they no longer equal the
  text that was written. The ledger model therefore describes the program on stores whose
  user names and categories are read back as text, which is the case for the names used
  below; what the program does with other names is not stated here. Every file has
  the header line of its table (on a file without one \<^verbatim>\<open>pd.read_csv\<close> raises before a
  function below does anything else). Amounts are exact rationals; the program computes
  with binary floating point, whose rounding is not modelled. A date is a calendar date,
  given by its day number: \<^verbatim>\<open>strftime('%Y-%m-%d')\<close> on writing and \<^verbatim>\<open>pd.to_datetime\<close> on
  reading are then inverse to each other, and the order of dates is the order of day
  numbers.
\<close>

subsection \<open>Tables\<close>

type_synonym date = int
type_synonym amount = rat

record user_row =
  u_username :: string
  u_password :: string

record expense =
  e_username :: string
  e_date :: date
  e_category :: string
  e_amount :: amount
  e_description :: string

record category_row =
  c_username :: string
  c_category :: string

record budget_row =
  b_username :: string
  b_category :: string
  b_amount :: amount

text \<open>The four files \<^verbatim>\<open>USERS_FILE\<close>, \<^verbatim>\<open>EXPENSES_FILE\<close>, \<^verbatim>\<open>CATEGORIES_FILE\<close>, \<^verbatim>\<open>BUDGETS_FILE\<close>.\<close>

record store =
  users_file :: "user_row list"
  expenses_file :: "expense list"
  categories_file :: "category_row list"
  budgets_file :: "budget_row list"

subsection \<open>The tracker object\<close>

text \<open>
  An \<^verbatim>\<open>ExpenseTracker\<close> holds its user name and a snapshot of that user's rows of three
  files, taken by \<^verbatim>\<open>load_data\<close>. Validation reads the snapshot; writing reads the file
  again, and every writing method ends with \<^verbatim>\<open>load_data\<close>.
\<close>

record tracker =
  username :: string
  expenses :: "expense list"
  categories :: "category_row list"
  budgets :: "budget_row list"

definition load_data :: "store \<Rightarrow> tracker \<Rightarrow> tracker" where
  "load_data s t =
     t\<lparr>expenses := filter (\<lambda>e. e_username e = username t) (expenses_file s),
       categories := filter (\<lambda>c. c_username c = username t) (categories_file s),
       budgets := filter (\<lambda>b. b_username b = username t) (budgets_file s)\<rparr>"

text \<open>The constructor \<^verbatim>\<open>__init__\<close>.\<close>

definition ExpenseTracker :: "store \<Rightarrow> string \<Rightarrow> tracker" where
  "ExpenseTracker s name =
     load_data s \<lparr>username = name, expenses = [], categories = [], budgets = []\<rparr>"

definition default_cats :: "string list" where
  "default_cats = [''Food'', ''Transport'', ''Housing'', ''Other'']"

text \<open>
  \<^verbatim>\<open>list(set(default_cats + user_cats))\<close>: a list without duplicates in no specified
  order, so the model returns the set.
\<close>

definition get_available_categories :: "tracker \<Rightarrow> string set" where
  "get_available_categories t =
     (let user_cats = map c_category (categories t)
      in set (default_cats @ user_cats))"

subsection \<open>Adding expenses\<close>

text \<open>
  \<^verbatim>\<open>add_expense\<close> returns the pair (success, message); the model returns it with the
  store and the tracker after the call. \<^verbatim>\<open>expense_data\<close> is the dictionary of the
  caller, with its \<^verbatim>\<open>username\<close> entry.
\<close>

definition add_expense :: "store \<Rightarrow> tracker \<Rightarrow> expense \<Rightarrow> (bool \<times> string) \<times> store \<times> tracker" where
  "add_expense s t expense_data =
     (let category = e_category expense_data;
          amount = e_amount expense_data
      in if category \<notin> get_available_categories t
         then ((False, ''Category does not exist.''), s, t)
         else
           let budget_row = filter (\<lambda>b. b_category b = category) (budgets t)
           in if budget_row \<noteq> [] \<and>
                 (let budget = b_amount (hd budget_row);
                      current_total =
                        sum_list (map e_amount (filter (\<lambda>e. e_category e = category) (expenses t)))
                  in current_total + amount > budget)
              then ((False, ''Adding this expense would exceed your budget for this category.''), s, t)
              else
                let s' = s\<lparr>expenses_file := expenses_file s @ [expense_data]\<rparr>
                in ((True, ''Expense added successfully.''), s', load_data s' t))"

subsection \<open>Bulk import\<close>















text \<open>
  The rows of a frame whose amount column did not read as numbers (one cell such as
  \<^verbatim>\<open>abc\<close> is enough): every amount of the frame is then a text.
\<close>

record text_row =
  x_date :: "date option"
  x_category :: string
  x_amount :: string
  x_description :: string



subsection \<open>Budgets\<close>

definition set_budget :: "store \<Rightarrow> tracker \<Rightarrow> string \<Rightarrow> amount \<Rightarrow> store \<times> tracker" where
  "set_budget s t category amount =
     (let kept = filter (\<lambda>b. \<not> (b_username b = username t \<and> b_category b = category))
                   (budgets_file s);
          new_budget = \<lparr>b_username = username t, b_category = category, b_amount = amount\<rparr>;
          s' = s\<lparr>budgets_file := kept @ [new_budget]\<rparr>
      in (s', load_data s' t))"

subsection \<open>Filtering\<close>

text \<open>
  The optional arguments are \<open>None\<close> when the caller leaves them out. \<^verbatim>\<open>if categories:\<close>
  holds for a collection that is given and not empty; the two amount bounds are tested
  with \<^verbatim>\<open>is not None\<close>. The empty frame \<^verbatim>\<open>pd.DataFrame()\<close> is the empty list.
\<close>

definition get_filtered_expenses ::
  "tracker \<Rightarrow> date \<Rightarrow> date \<Rightarrow> string list option \<Rightarrow> amount option \<Rightarrow> amount option \<Rightarrow> expense list" where
  "get_filtered_expenses t start_date end_date cats min_amount max_amount =
     (if expenses t = [] then []
      else
        let mask0 = (\<lambda>e. e_date e \<ge> start_date \<and> e_date e \<le> end_date);
            mask1 = (case cats of
                       Some cs \<Rightarrow> if cs \<noteq> [] then (\<lambda>e. mask0 e \<and> e_category e \<in> set cs) else mask0
                     | None \<Rightarrow> mask0);
            mask2 = (case min_amount of
                       Some lo \<Rightarrow> (\<lambda>e. mask1 e \<and> e_amount e \<ge> lo)
                     | None \<Rightarrow> mask1);
            mask3 = (case max_amount of
                       Some hi \<Rightarrow> (\<lambda>e. mask2 e \<and> e_amount e \<le> hi)
                     | None \<Rightarrow> mask2)
        in filter mask3 (expenses t))"

subsection \<open>Example stores\<close>

text \<open>A small store, used to run the functions on concrete rows.\<close>

definition ex_store :: store where
  "ex_store =
     \<lparr>users_file = [\<lparr>u_username = ''alice'', u_password = ''d1''\<rparr>],
      expenses_file =
        [\<lparr>e_username = ''alice'', e_date = 10, e_category = ''Food'', e_amount = 20, e_description = ''lunch''\<rparr>,
         \<lparr>e_username = ''bob'', e_date = 11, e_category = ''Food'', e_amount = 7, e_description = ''snack''\<rparr>,
         \<lparr>e_username = ''alice'', e_date = 12, e_category = ''Books'', e_amount = 35, e_description = ''novel''\<rparr>],
      categories_file = [\<lparr>c_username = ''alice'', c_category = ''Books''\<rparr>],
      budgets_file =
        [\<lparr>b_username = ''alice'', b_category = ''Food'', b_amount = 50\<rparr>,
         \<lparr>b_username = ''bob'', b_category = ''Food'', b_amount = 10\<rparr>]\<rparr>"

text \<open>A store in which alice has no expense yet, and an older budget for Food.\<close>

definition fresh_store :: store where
  "fresh_store =
     \<lparr>users_file = [\<lparr>u_username = ''alice'', u_password = ''d1''\<rparr>],
      expenses_file =
        [\<lparr>e_username = ''bob'', e_date = 11, e_category = ''Food'', e_amount = 7, e_description = ''snack''\<rparr>],
      categories_file = [],
      budgets_file = [\<lparr>b_username = ''alice'', b_category = ''Food'', b_amount = 30\<rparr>]\<rparr>"

section \<open>Properties\<close>

subsection \<open>The example store\<close>

lemma alice_tracker:
  "ExpenseTracker ex_store ''alice'' =
     \<lparr>username = ''alice'',
      expenses =
        [\<lparr>e_username = ''alice'', e_date = 10, e_category = ''Food'', e_amount = 20, e_description = ''lunch''\<rparr>,
         \<lparr>e_username = ''alice'', e_date = 12, e_category = ''Books'', e_amount = 35, e_description = ''novel''\<rparr>],
      categories = [\<lparr>c_username = ''alice'', c_category = ''Books''\<rparr>],
      budgets = [\<lparr>b_username = ''alice'', b_category = ''Food'', b_amount = 50\<rparr>]\<rparr>"
  by (simp add: ExpenseTracker_def load_data_def ex_store_def)

subsection \<open>Filtering\<close>



lemma subseq_filter_weaken:
  "(\<And>x. P x \<Longrightarrow> Q x) \<Longrightarrow> subseq (filter P xs) (filter Q xs)"
  by (induction xs) auto

lemma get_filtered_expenses_filter:
  "get_filtered_expenses t start_date end_date cats min_amount max_amount =
     filter (\<lambda>e. start_date \<le> e_date e \<and> e_date e \<le> end_date
               \<and> (case cats of Some cs \<Rightarrow> cs = [] \<or> e_category e \<in> set cs | None \<Rightarrow> True)
               \<and> (case min_amount of Some lo \<Rightarrow> lo \<le> e_amount e | None \<Rightarrow> True)
               \<and> (case max_amount of Some hi \<Rightarrow> e_amount e \<le> hi | None \<Rightarrow> True))
       (expenses t)"
  by (cases cats; cases min_amount; cases max_amount)
     (auto simp: get_filtered_expenses_def intro!: filter_cong)

text \<open>
  C6. Narrowing only removes rows: the result with a category restriction, with a lower
  bound or with an upper bound is a subsequence of the result of the same call without
  it, and every result is contained in the result for the date range alone.
\<close>

theorem narrowing_only_removes_rows:
  "subseq (get_filtered_expenses t start_date end_date (Some cs) min_amount max_amount)
          (get_filtered_expenses t start_date end_date None min_amount max_amount)
   \<and> subseq (get_filtered_expenses t start_date end_date cats (Some lo) max_amount)
          (get_filtered_expenses t start_date end_date cats None max_amount)
   \<and> subseq (get_filtered_expenses t start_date end_date cats min_amount (Some hi))
          (get_filtered_expenses t start_date end_date cats min_amount None)
   \<and> set (get_filtered_expenses t start_date end_date cats min_amount max_amount)
       \<subseteq> set (get_filtered_expenses t start_date end_date None None None)"
proof -
  have a: "subseq (get_filtered_expenses t start_date end_date (Some cs) min_amount max_amount)
          (get_filtered_expenses t start_date end_date None min_amount max_amount)"
    unfolding get_filtered_expenses_filter by (rule subseq_filter_weaken) simp
  have b: "subseq (get_filtered_expenses t start_date end_date cats (Some lo) max_amount)
          (get_filtered_expenses t start_date end_date cats None max_amount)"
    unfolding get_filtered_expenses_filter by (rule subseq_filter_weaken) simp
  have c: "subseq (get_filtered_expenses t start_date end_date cats min_amount (Some hi))
          (get_filtered_expenses t start_date end_date cats min_amount None)"
    unfolding get_filtered_expenses_filter by (rule subseq_filter_weaken) simp
  have d: "set (get_filtered_expenses t start_date end_date cats min_amount max_amount)
       \<subseteq> set (get_filtered_expenses t start_date end_date None None None)"
    unfolding get_filtered_expenses_filter by auto
  from a b c d show ?thesis by blast
qed

theorem narrowing_only_removes_rows_witness:
  "subseq (get_filtered_expenses (ExpenseTracker ex_store ''alice'') 10 12 (Some [''Food'']) None None)
          (get_filtered_expenses (ExpenseTracker ex_store ''alice'') 10 12 None None None)
   \<and> get_filtered_expenses (ExpenseTracker ex_store ''alice'') 10 12 (Some [''Food'']) None None =
       [\<lparr>e_username = ''alice'', e_date = 10, e_category = ''Food'', e_amount = 20, e_description = ''lunch''\<rparr>]
   \<and> length (get_filtered_expenses (ExpenseTracker ex_store ''alice'') 10 12 None None None) = 2"
proof -
  have "get_filtered_expenses (ExpenseTracker ex_store ''alice'') 10 12 (Some [''Food'']) None None =
       [\<lparr>e_username = ''alice'', e_date = 10, e_category = ''Food'', e_amount = 20, e_description = ''lunch''\<rparr>]"
    by (simp add: get_filtered_expenses_def alice_tracker)
  moreover have "length (get_filtered_expenses (ExpenseTracker ex_store ''alice'') 10 12 None None None) = 2"
    by (simp add: get_filtered_expenses_def alice_tracker)
  ultimately show ?thesis
    using narrowing_only_removes_rows [where t = "ExpenseTracker ex_store ''alice''" and start_date = 10
            and end_date = 12 and cs = "[''Food'']" and min_amount = None and max_amount = None]
    by blast
qed

text \<open>
  C10. An empty collection of categories is no restriction: the call with \<open>Some []\<close>
  returns what the call without a category argument returns, for every tracker, date range
  and amount bounds. That result is not the empty one: it is the rows of the ledger in the
  date range that pass the amount bounds, and all rows of the date range when no bound is
  given, since the category test is applied only to a collection that is not empty.
\<close>

theorem filter_empty_categories_is_no_restriction:
  "get_filtered_expenses t start_date end_date (Some []) min_amount max_amount =
   get_filtered_expenses t start_date end_date None min_amount max_amount
   \<and> get_filtered_expenses t start_date end_date (Some []) min_amount max_amount =
       filter (\<lambda>e. start_date \<le> e_date e \<and> e_date e \<le> end_date
                 \<and> (case min_amount of Some lo \<Rightarrow> lo \<le> e_amount e | None \<Rightarrow> True)
                 \<and> (case max_amount of Some hi \<Rightarrow> e_amount e \<le> hi | None \<Rightarrow> True))
         (expenses t)
   \<and> get_filtered_expenses t start_date end_date (Some []) None None =
       filter (\<lambda>e. start_date \<le> e_date e \<and> e_date e \<le> end_date) (expenses t)"
  by (simp add: get_filtered_expenses_filter)

theorem filter_empty_categories_is_no_restriction_witness:
  "get_filtered_expenses (ExpenseTracker ex_store ''alice'') 10 12 (Some []) None None =
     [\<lparr>e_username = ''alice'', e_date = 10, e_category = ''Food'', e_amount = 20, e_description = ''lunch''\<rparr>,
      \<lparr>e_username = ''alice'', e_date = 12, e_category = ''Books'', e_amount = 35, e_description = ''novel''\<rparr>]
   \<and> get_filtered_expenses (ExpenseTracker ex_store ''alice'') 10 12 None None None =
     [\<lparr>e_username = ''alice'', e_date = 10, e_category = ''Food'', e_amount = 20, e_description = ''lunch''\<rparr>,
      \<lparr>e_username = ''alice'', e_date = 12, e_category = ''Books'', e_amount = 35, e_description = ''novel''\<rparr>]
   \<and> get_filtered_expenses (ExpenseTracker ex_store ''alice'') 10 12 (Some [''Food'']) None None =
     [\<lparr>e_username = ''alice'', e_date = 10, e_category = ''Food'', e_amount = 20, e_description = ''lunch''\<rparr>]"
proof -
  let ?t = "ExpenseTracker ex_store ''alice''"
  note th = filter_empty_categories_is_no_restriction [where t = "?t" and start_date = 10
      and end_date = 12 and min_amount = None and max_amount = None]
  from th have a: "get_filtered_expenses ?t 10 12 (Some []) None None =
       filter (\<lambda>e. 10 \<le> e_date e \<and> e_date e \<le> 12) (expenses ?t)"
    by blast
  from th have b: "get_filtered_expenses ?t 10 12 None None None =
       get_filtered_expenses ?t 10 12 (Some []) None None"
    by simp
  have c: "get_filtered_expenses ?t 10 12 (Some [''Food'']) None None =
     [\<lparr>e_username = ''alice'', e_date = 10, e_category = ''Food'', e_amount = 20, e_description = ''lunch''\<rparr>]"
    by (simp add: get_filtered_expenses_def alice_tracker)
  show ?thesis
    unfolding b c unfolding a by (simp add: alice_tracker)
qed

subsection \<open>A rejected expense changes nothing\<close>

lemma load_data_username: "username (load_data s t) = username t"
  by (simp add: load_data_def)

lemma load_data_budgets:
  "budgets (load_data s t) = filter (\<lambda>b. b_username b = username t) (budgets_file s)"
  by (simp add: load_data_def)

lemma load_data_expenses:
  "expenses (load_data s t) = filter (\<lambda>e. e_username e = username t) (expenses_file s)"
  by (simp add: load_data_def)

lemma set_budget_eq:
  "set_budget s t category amount =
     (s\<lparr>budgets_file :=
          filter (\<lambda>b. \<not> (b_username b = username t \<and> b_category b = category)) (budgets_file s)
          @ [\<lparr>b_username = username t, b_category = category, b_amount = amount\<rparr>]\<rparr>,
      load_data
        (s\<lparr>budgets_file :=
             filter (\<lambda>b. \<not> (b_username b = username t \<and> b_category b = category)) (budgets_file s)
             @ [\<lparr>b_username = username t, b_category = category, b_amount = amount\<rparr>]\<rparr>) t)"
  by (simp add: set_budget_def Let_def)

lemma set_budget_snapshot:
  "filter (\<lambda>b. b_category b = category) (budgets (snd (set_budget s t category amount))) =
   [\<lparr>b_username = username t, b_category = category, b_amount = amount\<rparr>]"
proof -
  have "filter (\<lambda>b. b_category b = category)
          (filter (\<lambda>b. b_username b = username t)
             (filter (\<lambda>b. \<not> (b_username b = username t \<and> b_category b = category)) xs)) = []" for xs
    by (induction xs) auto
  then show ?thesis by (simp add: set_budget_eq load_data_budgets)
qed

lemma add_expense_cases:
  "add_expense s t e = ((False, ''Category does not exist.''), s, t)
   \<or> add_expense s t e = ((False, ''Adding this expense would exceed your budget for this category.''), s, t)
   \<or> add_expense s t e = ((True, ''Expense added successfully.''),
        s\<lparr>expenses_file := expenses_file s @ [e]\<rparr>,
        load_data (s\<lparr>expenses_file := expenses_file s @ [e]\<rparr>) t)"
  unfolding add_expense_def Let_def by (simp only: split: if_split) blast

lemma load_data_idem: "load_data s (load_data s t) = load_data s t"
  by (simp add: load_data_def)

lemma ExpenseTracker_synced: "load_data s (ExpenseTracker s name) = ExpenseTracker s name"
  by (simp add: ExpenseTracker_def load_data_idem)

lemma load_data_append_expense:
  assumes "load_data s t = t" and "e_username e = username t"
  shows "expenses (load_data (s\<lparr>expenses_file := expenses_file s @ [e]\<rparr>) t) = expenses t @ [e]"
    and "budgets (load_data (s\<lparr>expenses_file := expenses_file s @ [e]\<rparr>) t) = budgets t"
    and "categories (load_data (s\<lparr>expenses_file := expenses_file s @ [e]\<rparr>) t) = categories t"
proof -
  have e: "expenses t = filter (\<lambda>e. e_username e = username t) (expenses_file s)"
    and b: "budgets t = filter (\<lambda>b. b_username b = username t) (budgets_file s)"
    and c: "categories t = filter (\<lambda>c. c_username c = username t) (categories_file s)"
    using arg_cong [OF assms(1), of expenses] arg_cong [OF assms(1), of budgets]
      arg_cong [OF assms(1), of categories]
    by (simp_all add: load_data_def)
  show "expenses (load_data (s\<lparr>expenses_file := expenses_file s @ [e]\<rparr>) t) = expenses t @ [e]"
    by (simp add: load_data_def e [symmetric] assms(2))
  show "budgets (load_data (s\<lparr>expenses_file := expenses_file s @ [e]\<rparr>) t) = budgets t"
    by (simp add: load_data_def b [symmetric])
  show "categories (load_data (s\<lparr>expenses_file := expenses_file s @ [e]\<rparr>) t) = categories t"
    by (simp add: load_data_def c [symmetric])
qed

lemma add_expense_under_budget:
  assumes "e_category e \<in> get_available_categories t"
    and "filter (\<lambda>b. b_category b = e_category e) (budgets t) = [b]"
    and "sum_list (map e_amount (filter (\<lambda>x. e_category x = e_category e) (expenses t)))
           + e_amount e \<le> b_amount b"
  shows "add_expense s t e =
     ((True, ''Expense added successfully.''),
      s\<lparr>expenses_file := expenses_file s @ [e]\<rparr>,
      load_data (s\<lparr>expenses_file := expenses_file s @ [e]\<rparr>) t)"
  using assms by (simp add: add_expense_def Let_def)

lemma add_expense_over_budget:
  assumes "e_category e \<in> get_available_categories t"
    and "filter (\<lambda>b. b_category b = e_category e) (budgets t) = [b]"
    and "sum_list (map e_amount (filter (\<lambda>x. e_category x = e_category e) (expenses t)))
           + e_amount e > b_amount b"
  shows "add_expense s t e =
     ((False, ''Adding this expense would exceed your budget for this category.''), s, t)"
  using assms by (simp add: add_expense_def Let_def)

lemma add_expense_failure_unchanged:
  "fst (fst (add_expense s t e)) = False \<Longrightarrow> snd (add_expense s t e) = (s, t)"
  using add_expense_cases [of s t e] by auto

lemma Food_available: "''Food'' \<in> get_available_categories t"
  by (simp add: get_available_categories_def default_cats_def)

text \<open>
  C3. When \<^verbatim>\<open>add_expense\<close> returns failure, the store and the tracker are the ones before
  the call. The scenario: in any store where alice has no Food expense, after
  \<^verbatim>\<open>set_budget("Food", 100)\<close> the expenses of 60 and of 40 in Food are both accepted
  (the Food total is then 60 and 100), a further expense of 0.01 in Food is rejected with
  the budget message, store and tracker stay as they were, the Food total is still 100,
  and the expenses file holds the two accepted rows after its old ones.
\<close>

theorem failed_add_leaves_ledger_unchanged:
  "(fst (fst (add_expense s t e)) = False \<longrightarrow> snd (add_expense s t e) = (s, t))
   \<and> (filter (\<lambda>x. e_username x = ''alice'' \<and> e_category x = ''Food'') (expenses_file s0) = [] \<longrightarrow>
       (let t0 = ExpenseTracker s0 ''alice'';
            (s1, t1) = set_budget s0 t0 ''Food'' 100;
            e1 = \<lparr>e_username = ''alice'', e_date = d1, e_category = ''Food'',
                  e_amount = 60, e_description = x1\<rparr>;
            e2 = \<lparr>e_username = ''alice'', e_date = d2, e_category = ''Food'',
                  e_amount = 40, e_description = x2\<rparr>;
            e3 = \<lparr>e_username = ''alice'', e_date = d3, e_category = ''Food'',
                  e_amount = 1 / 100, e_description = x3\<rparr>;
            (r1, s2, t2) = add_expense s1 t1 e1;
            (r2, s3, t3) = add_expense s2 t2 e2;
            (r3, s4, t4) = add_expense s3 t3 e3
        in r1 = (True, ''Expense added successfully.'')
           \<and> sum_list (map e_amount (filter (\<lambda>x. e_category x = ''Food'') (expenses t2))) = 60
           \<and> r2 = (True, ''Expense added successfully.'')
           \<and> sum_list (map e_amount (filter (\<lambda>x. e_category x = ''Food'') (expenses t3))) = 100
           \<and> r3 = (False, ''Adding this expense would exceed your budget for this category.'')
           \<and> s4 = s3 \<and> t4 = t3
           \<and> sum_list (map e_amount (filter (\<lambda>x. e_category x = ''Food'') (expenses t4))) = 100
           \<and> expenses_file s4 = expenses_file s0 @ [e1, e2]))"
proof (intro conjI impI)
  assume "fst (fst (add_expense s t e)) = False"
  then show "snd (add_expense s t e) = (s, t)" by (rule add_expense_failure_unchanged)
next
  assume fresh: "filter (\<lambda>x. e_username x = ''alice'' \<and> e_category x = ''Food'') (expenses_file s0) = []"
  define t0 where "t0 = ExpenseTracker s0 ''alice''"
  define s1 where "s1 = fst (set_budget s0 t0 ''Food'' 100)"
  define t1 where "t1 = snd (set_budget s0 t0 ''Food'' 100)"
  define e1 where "e1 = \<lparr>e_username = ''alice'', e_date = d1, e_category = ''Food'',
                  e_amount = 60, e_description = x1\<rparr>"
  define e2 where "e2 = \<lparr>e_username = ''alice'', e_date = d2, e_category = ''Food'',
                  e_amount = 40, e_description = x2\<rparr>"
  define e3 where "e3 = \<lparr>e_username = ''alice'', e_date = d3, e_category = ''Food'',
                  e_amount = 1 / 100, e_description = x3\<rparr>"
  define s2 where "s2 = s1\<lparr>expenses_file := expenses_file s1 @ [e1]\<rparr>"
  define t2 where "t2 = load_data s2 t1"
  define s3 where "s3 = s2\<lparr>expenses_file := expenses_file s2 @ [e2]\<rparr>"
  define t3 where "t3 = load_data s3 t2"
  let ?food = "\<lambda>t. sum_list (map e_amount (filter (\<lambda>x. e_category x = ''Food'') (expenses t)))"
  have u0: "username t0 = ''alice''"
    by (simp add: t0_def ExpenseTracker_def load_data_def)
  have sb: "set_budget s0 t0 ''Food'' 100 = (s1, t1)"
    by (simp add: s1_def t1_def)
  have t1_load: "t1 = load_data s1 t0"
    by (simp add: t1_def s1_def set_budget_eq)
  have sync1: "load_data s1 t1 = t1"
    by (simp add: t1_load load_data_idem)
  have u1: "username t1 = ''alice''"
    by (simp add: t1_load load_data_username u0)
  have f1: "expenses_file s1 = expenses_file s0"
    by (simp add: s1_def set_budget_eq)
  have b1: "filter (\<lambda>b. b_category b = ''Food'') (budgets t1) =
      [\<lparr>b_username = ''alice'', b_category = ''Food'', b_amount = 100\<rparr>]"
    using set_budget_snapshot [of "''Food''" s0 t0 100] by (simp add: t1_def u0)
  have x1: "filter (\<lambda>x. e_category x = ''Food'') (expenses t1) = []"
    using fresh by (simp add: t1_load load_data_expenses u0 f1 conj_commute)
  have c1: "e_category e1 = ''Food''" "e_username e1 = username t1" "e_amount e1 = 60"
    by (simp_all add: e1_def u1)
  have c2: "e_category e2 = ''Food''" "e_username e2 = username t1" "e_amount e2 = 40"
    by (simp_all add: e2_def u1)
  have c3: "e_category e3 = ''Food''" "e_amount e3 = 1 / 100"
    by (simp_all add: e3_def)
  have a1: "add_expense s1 t1 e1 = ((True, ''Expense added successfully.''), s2, t2)"
    unfolding s2_def t2_def
    by (rule add_expense_under_budget [where b = "\<lparr>b_username = ''alice'', b_category = ''Food'', b_amount = 100\<rparr>"])
       (simp_all add: c1 Food_available b1 x1)
  have ex2: "expenses t2 = expenses t1 @ [e1]" and bu2: "budgets t2 = budgets t1"
    unfolding t2_def s2_def using load_data_append_expense [OF sync1 c1(2)] by simp_all
  have u2: "username t2 = username t1" by (simp add: t2_def load_data_username)
  have sync2: "load_data s2 t2 = t2" by (simp add: t2_def load_data_idem)
  have food2: "?food t2 = 60" by (simp add: ex2 x1 c1)
  have a2: "add_expense s2 t2 e2 = ((True, ''Expense added successfully.''), s3, t3)"
    unfolding s3_def t3_def
    by (rule add_expense_under_budget [where b = "\<lparr>b_username = ''alice'', b_category = ''Food'', b_amount = 100\<rparr>"])
       (simp_all add: c2 Food_available bu2 b1 food2)
  have ex3: "expenses t3 = expenses t2 @ [e2]" and bu3: "budgets t3 = budgets t2"
    unfolding t3_def s3_def using load_data_append_expense [OF sync2, of e2] by (simp_all add: c2 u2)
  have food3: "?food t3 = 100" using food2 by (simp add: ex3 c2)
  have a3: "add_expense s3 t3 e3 =
      ((False, ''Adding this expense would exceed your budget for this category.''), s3, t3)"
    by (rule add_expense_over_budget [where b = "\<lparr>b_username = ''alice'', b_category = ''Food'', b_amount = 100\<rparr>"])
       (simp_all add: c3 Food_available bu3 bu2 b1 food3)
  have files: "expenses_file s3 = expenses_file s0 @ [e1, e2]"
    by (simp add: s3_def s2_def f1)
  show "let t0 = ExpenseTracker s0 ''alice'';
            (s1, t1) = set_budget s0 t0 ''Food'' 100;
            e1 = \<lparr>e_username = ''alice'', e_date = d1, e_category = ''Food'',
                  e_amount = 60, e_description = x1\<rparr>;
            e2 = \<lparr>e_username = ''alice'', e_date = d2, e_category = ''Food'',
                  e_amount = 40, e_description = x2\<rparr>;
            e3 = \<lparr>e_username = ''alice'', e_date = d3, e_category = ''Food'',
                  e_amount = 1 / 100, e_description = x3\<rparr>;
            (r1, s2, t2) = add_expense s1 t1 e1;
            (r2, s3, t3) = add_expense s2 t2 e2;
            (r3, s4, t4) = add_expense s3 t3 e3
        in r1 = (True, ''Expense added successfully.'')
           \<and> sum_list (map e_amount (filter (\<lambda>x. e_category x = ''Food'') (expenses t2))) = 60
           \<and> r2 = (True, ''Expense added successfully.'')
           \<and> sum_list (map e_amount (filter (\<lambda>x. e_category x = ''Food'') (expenses t3))) = 100
           \<and> r3 = (False, ''Adding this expense would exceed your budget for this category.'')
           \<and> s4 = s3 \<and> t4 = t3
           \<and> sum_list (map e_amount (filter (\<lambda>x. e_category x = ''Food'') (expenses t4))) = 100
           \<and> expenses_file s4 = expenses_file s0 @ [e1, e2]"
    unfolding Let_def t0_def [symmetric] sb e1_def [symmetric] e2_def [symmetric] e3_def [symmetric]
      prod.case a1 a2 a3
    using food2 food3 files by simp
qed

theorem failed_add_leaves_ledger_unchanged_witness:
  "snd (add_expense ex_store (ExpenseTracker ex_store ''alice'')
          \<lparr>e_username = ''alice'', e_date = 13, e_category = ''Pets'', e_amount = 1, e_description = ''toy''\<rparr>)
     = (ex_store, ExpenseTracker ex_store ''alice'')
   \<and> (let t0 = ExpenseTracker fresh_store ''alice'';
            (s1, t1) = set_budget fresh_store t0 ''Food'' 100;
            e1 = \<lparr>e_username = ''alice'', e_date = 1, e_category = ''Food'',
                  e_amount = 60, e_description = ''a''\<rparr>;
            e2 = \<lparr>e_username = ''alice'', e_date = 2, e_category = ''Food'',
                  e_amount = 40, e_description = ''b''\<rparr>;
            e3 = \<lparr>e_username = ''alice'', e_date = 3, e_category = ''Food'',
                  e_amount = 1 / 100, e_description = ''c''\<rparr>;
            (r1, s2, t2) = add_expense s1 t1 e1;
            (r2, s3, t3) = add_expense s2 t2 e2;
            (r3, s4, t4) = add_expense s3 t3 e3
        in r1 = (True, ''Expense added successfully.'')
           \<and> sum_list (map e_amount (filter (\<lambda>x. e_category x = ''Food'') (expenses t2))) = 60
           \<and> r2 = (True, ''Expense added successfully.'')
           \<and> sum_list (map e_amount (filter (\<lambda>x. e_category x = ''Food'') (expenses t3))) = 100
           \<and> r3 = (False, ''Adding this expense would exceed your budget for this category.'')
           \<and> s4 = s3 \<and> t4 = t3
           \<and> sum_list (map e_amount (filter (\<lambda>x. e_category x = ''Food'') (expenses t4))) = 100
           \<and> expenses_file s4 = expenses_file fresh_store @ [e1, e2])"
proof -
  let ?pets = "\<lparr>e_username = ''alice'', e_date = 13, e_category = ''Pets'', e_amount = 1, e_description = ''toy''\<rparr>"
  have h1: "fst (fst (add_expense ex_store (ExpenseTracker ex_store ''alice'') ?pets)) = False"
    by (simp add: add_expense_def alice_tracker get_available_categories_def default_cats_def)
  have h2: "filter (\<lambda>x. e_username x = ''alice'' \<and> e_category x = ''Food'') (expenses_file fresh_store) = []"
    by (simp add: fresh_store_def)
  from failed_add_leaves_ledger_unchanged [where s = ex_store and t = "ExpenseTracker ex_store ''alice''"
      and e = ?pets and ?s0.0 = fresh_store and ?d1.0 = 1 and ?x1.0 = "''a''" and ?d2.0 = 2 and ?x2.0 = "''b''"
      and ?d3.0 = 3 and ?x3.0 = "''c''"] h1 h2
  show ?thesis by blast
qed

subsection \<open>Bulk import\<close>














end
